theory Spec2Isabelle
  imports Main "HOL-Library.Word"
begin

section \<open>Environment configuration (package envconf)\<close>

text \<open>
  The backend connection handle \<open>klient.Client\<close> is an interface of another
  package; the engine only stores it.  A compiled \<open>*regexp.Regexp\<close> is used
  through \<open>MatchString\<close> alone, so it is represented by that predicate; the
  \<open>nil\<close> pointer is \<open>None\<close>.
\<close>

typedecl Client

type_synonym Regexp = "string \<Rightarrow> bool"

record Config =
  kubeconfig :: string
  client :: "Client option"
  namespace :: string
  assessmentRegex :: "Regexp option"
  featureRegex :: "Regexp option"
  labels :: "string \<rightharpoonup> string"

definition New_Config :: Config where
  "New_Config = \<lparr>kubeconfig = [], client = None, namespace = [],
     assessmentRegex = None, featureRegex = None, labels = Map.empty\<rparr>"

definition WithKubeconfigFile :: "Config \<Rightarrow> string \<Rightarrow> Config" where
  "WithKubeconfigFile c kubecfg = c\<lparr>kubeconfig := kubecfg\<rparr>"

definition WithNamespace :: "Config \<Rightarrow> string \<Rightarrow> Config" where
  "WithNamespace c ns = c\<lparr>namespace := ns\<rparr>"

text \<open>
  \<open>WithAssessmentRegex\<close> and \<open>WithFeatureRegex\<close> take the pattern already
  compiled (\<open>regexp.MustCompile\<close> belongs to the standard library).
\<close>

definition WithAssessmentRegex :: "Config \<Rightarrow> Regexp \<Rightarrow> Config" where
  "WithAssessmentRegex c re = c\<lparr>assessmentRegex := Some re\<rparr>"

definition WithFeatureRegex :: "Config \<Rightarrow> Regexp \<Rightarrow> Config" where
  "WithFeatureRegex c re = c\<lparr>featureRegex := Some re\<rparr>"

subsection \<open>RandomName\<close>

text \<open>
  \<open>hex.EncodeToString\<close>: two lower-case hexadecimal digits per byte, high
  nibble first.
\<close>

definition hexDigit :: "nat \<Rightarrow> char" where
  "hexDigit d = ''0123456789abcdef'' ! (d mod 16)"

fun EncodeToString :: "8 word list \<Rightarrow> string" where
  "EncodeToString [] = []"
| "EncodeToString (b # bs) =
     hexDigit (unat b div 16) # hexDigit (unat b mod 16) # EncodeToString bs"

text \<open>
  \<open>rand.Read(p)\<close> fills the \<open>n\<close> bytes of \<open>p\<close>; the generator is the
  parameter \<open>src\<close>, the byte it yields at each position.
\<close>

definition rand_Read :: "(nat \<Rightarrow> 8 word) \<Rightarrow> nat \<Rightarrow> 8 word list" where
  "rand_Read src n = map src [0..<n]"

text \<open>
  \<open>RandomName(prefix, n)\<close>.  \<open>n\<close> is a Go \<open>int\<close> and may be negative;
  \<open>len(prefix)\<close> counts bytes.  The slice \<open>[:n]\<close> is within bounds on the
  path that reaches it (shown below), so \<open>take\<close> is the slice.
\<close>

definition RandomName :: "(nat \<Rightarrow> 8 word) \<Rightarrow> string \<Rightarrow> int \<Rightarrow> string" where
  "RandomName src prefix n0 =
     (let n = (if n0 = 0 then 32 else n0) in
      if int (length prefix) \<ge> n then prefix
      else let p = rand_Read src (nat n) in
           take (nat n) (prefix @ ''-'' @ EncodeToString p))"

definition randNS :: "(nat \<Rightarrow> 8 word) \<Rightarrow> string" where
  "randNS src = RandomName src ''testns-'' 32"

section \<open>Actions and the environment (package env)\<close>

text \<open>
  A \<open>context.Context\<close> is an interface value: \<open>None\<close> is \<open>nil\<close>, and
  \<open>Some c\<close> carries the payload \<open>c\<close> of an arbitrary type.
\<close>

type_synonym 'c Context = "'c option"

type_synonym error = string

text \<open>
  An environment function \<open>func(ctx, cfg) (ctx, error)\<close> receives the
  configuration by pointer: it returns the context, the error (\<open>None\<close> is
  \<open>nil\<close>) and the configuration as it left it.
\<close>

type_synonym 'c EnvFunc = "'c Context \<Rightarrow> Config \<Rightarrow> 'c Context \<times> error option \<times> Config"

text \<open>
  Modelled from the spec: the declaration of \<open>actionRole\<close>'s constants is not
  among the source files; the spec names the six roles.
\<close>

datatype actionRole =
  roleSetup | roleBeforeTest | roleBeforeFeature | roleAfterFeature | roleAfterTest | roleFinish

record 'c action =
  role :: actionRole
  funcs :: "'c EnvFunc list"

text \<open>
  Modelled from the spec: \<open>action.run\<close> is not among the source files.  The
  spec describes an action as an ordered list of hook functions, each receiving
  the context produced by the previous one, and a hook's error as the failure
  of the action; the context returned with the error is the failing hook's.
\<close>

fun run_funcs :: "'c EnvFunc list \<Rightarrow> 'c Context \<Rightarrow> Config \<Rightarrow> 'c Context \<times> error option \<times> Config" where
  "run_funcs [] c g = (c, None, g)"
| "run_funcs (f # fs) c g =
     (case f c g of
        (c', Some err, g') \<Rightarrow> (c', Some err, g')
      | (c', None, g') \<Rightarrow> run_funcs fs c' g')"

definition run :: "'c action \<Rightarrow> 'c Context \<Rightarrow> Config \<Rightarrow> 'c Context \<times> error option \<times> Config" where
  "run a c g = run_funcs (funcs a) c g"

record 'c testEnv =
  ctx :: "'c Context"
  cfg :: Config
  actions :: "'c action list"

text \<open>
  \<open>newTestEnv\<close> starts from \<open>context.Background()\<close>: the payload
  \<open>background\<close> stands for it.  The configuration, held by pointer in the
  source, is a field that every call returns as it left it.
\<close>

definition NewWithConfig :: "'c \<Rightarrow> Config \<Rightarrow> 'c testEnv" where
  "NewWithConfig background c = \<lparr>ctx = Some background, cfg = c, actions = []\<rparr>"

definition newTestEnv :: "'c \<Rightarrow> 'c testEnv" where
  "newTestEnv background = \<lparr>ctx = Some background, cfg = New_Config, actions = []\<rparr>"

subsection \<open>Registration\<close>

definition Setup :: "'c testEnv \<Rightarrow> 'c EnvFunc list \<Rightarrow> 'c testEnv" where
  "Setup e fs =
     (if length fs = 0 then e
      else e\<lparr>actions := actions e @ [\<lparr>role = roleSetup, funcs = fs\<rparr>]\<rparr>)"

definition BeforeEachTest :: "'c testEnv \<Rightarrow> 'c EnvFunc list \<Rightarrow> 'c testEnv" where
  "BeforeEachTest e fs =
     (if length fs = 0 then e
      else e\<lparr>actions := actions e @ [\<lparr>role = roleBeforeTest, funcs = fs\<rparr>]\<rparr>)"

definition BeforeEachFeature :: "'c testEnv \<Rightarrow> 'c EnvFunc list \<Rightarrow> 'c testEnv" where
  "BeforeEachFeature e fs =
     (if length fs = 0 then e
      else e\<lparr>actions := actions e @ [\<lparr>role = roleBeforeFeature, funcs = fs\<rparr>]\<rparr>)"

definition AfterEachFeature :: "'c testEnv \<Rightarrow> 'c EnvFunc list \<Rightarrow> 'c testEnv" where
  "AfterEachFeature e fs =
     (if length fs = 0 then e
      else e\<lparr>actions := actions e @ [\<lparr>role = roleAfterFeature, funcs = fs\<rparr>]\<rparr>)"

definition AfterEachTest :: "'c testEnv \<Rightarrow> 'c EnvFunc list \<Rightarrow> 'c testEnv" where
  "AfterEachTest e fs =
     (if length fs = 0 then e
      else e\<lparr>actions := actions e @ [\<lparr>role = roleAfterTest, funcs = fs\<rparr>]\<rparr>)"

definition Finish :: "'c testEnv \<Rightarrow> 'c EnvFunc list \<Rightarrow> 'c testEnv" where
  "Finish e fs =
     (if length fs = 0 then e
      else e\<lparr>actions := actions e @ [\<lparr>role = roleFinish, funcs = fs\<rparr>]\<rparr>)"

subsection \<open>Retrieval by role\<close>

text \<open>The loop of \<open>getActionsByRole\<close>, appending to \<open>result\<close>.\<close>

fun getActionsByRole_loop :: "'c action list \<Rightarrow> actionRole \<Rightarrow> 'c action list \<Rightarrow> 'c action list" where
  "getActionsByRole_loop [] r result = result"
| "getActionsByRole_loop (a # as) r result =
     getActionsByRole_loop as r (if role a = r then result @ [a] else result)"

text \<open>A \<open>nil\<close> slice and an empty one are the same list here.\<close>

definition getActionsByRole :: "'c testEnv \<Rightarrow> actionRole \<Rightarrow> 'c action list" where
  "getActionsByRole e r =
     (if actions e = [] then [] else getActionsByRole_loop (actions e) r [])"

definition getSetupActions :: "'c testEnv \<Rightarrow> 'c action list" where
  "getSetupActions e = getActionsByRole e roleSetup"

definition getBeforeTestActions :: "'c testEnv \<Rightarrow> 'c action list" where
  "getBeforeTestActions e = getActionsByRole e roleBeforeTest"

definition getBeforeFeatureActions :: "'c testEnv \<Rightarrow> 'c action list" where
  "getBeforeFeatureActions e = getActionsByRole e roleBeforeFeature"

definition getAfterFeatureActions :: "'c testEnv \<Rightarrow> 'c action list" where
  "getAfterFeatureActions e = getActionsByRole e roleAfterFeature"

definition getAfterTestActions :: "'c testEnv \<Rightarrow> 'c action list" where
  "getAfterTestActions e = getActionsByRole e roleAfterTest"

definition getFinishActions :: "'c testEnv \<Rightarrow> 'c action list" where
  "getFinishActions e = getActionsByRole e roleFinish"

text \<open>
  A registration call names its role and passes its functions; \<open>register\<close>
  dispatches to the method of that role, and a sequence of calls is folded
  from the left.
\<close>

fun register :: "'c testEnv \<Rightarrow> actionRole \<times> 'c EnvFunc list \<Rightarrow> 'c testEnv" where
  "register e (roleSetup, fs) = Setup e fs"
| "register e (roleBeforeTest, fs) = BeforeEachTest e fs"
| "register e (roleBeforeFeature, fs) = BeforeEachFeature e fs"
| "register e (roleAfterFeature, fs) = AfterEachFeature e fs"
| "register e (roleAfterTest, fs) = AfterEachTest e fs"
| "register e (roleFinish, fs) = Finish e fs"

definition registered :: "actionRole \<Rightarrow> (actionRole \<times> 'c EnvFunc list) list \<Rightarrow> 'c action list" where
  "registered r calls =
     map (\<lambda>(r', fs). \<lparr>role = r', funcs = fs\<rparr>)
       (filter (\<lambda>(r', fs). r' = r \<and> fs \<noteq> []) calls)"

section \<open>The test handle (testing.T, as the engine uses it)\<close>

text \<open>
  A \<open>*testing.T\<close> is recorded as the name under which it was opened, its
  failed and skipped marks, the lines logged on it and the sub-tests opened on
  it, in order.  The name is the one passed to \<open>t.Run\<close>; no \<open>-run\<close> filter
  of the test binary is in force.
\<close>

datatype T = T (T_name: string) (T_failed: bool) (T_skipped: bool)
  (T_output: "string list") (T_subtests: "T list")

definition T_new :: "string \<Rightarrow> T" where
  "T_new n = T n False False [] []"

fun T_Log :: "T \<Rightarrow> string \<Rightarrow> T" where
  "T_Log (T n f s out subs) msg = T n f s (out @ [msg]) subs"

text \<open>
  \<open>t.Fatalf\<close> and \<open>t.Skipf\<close> log the message, set the mark and leave the
  goroutine of the test through \<open>runtime.Goexit\<close>: the functions below give
  the handle afterwards, and the caller's model takes the \<open>Goexit\<close> branch.
\<close>

fun T_Fatalf :: "T \<Rightarrow> string \<Rightarrow> T" where
  "T_Fatalf (T n f s out subs) msg = T n True s (out @ [msg]) subs"

fun T_Skipf :: "T \<Rightarrow> string \<Rightarrow> T" where
  "T_Skipf (T n f s out subs) msg = T n f True (out @ [msg]) subs"

text \<open>
  Code that runs on the goroutine of a test either returns or leaves through
  \<open>Goexit\<close> (after \<open>FailNow\<close> or \<open>SkipNow\<close>).
\<close>

datatype 'a flow = Returned 'a | Goexit

text \<open>
  \<open>t.Run(name, body)\<close> opens a fresh sub-test, runs the body on it to its end
  (return or \<open>Goexit\<close>, which ends the sub-test only), records the sub-test
  on the parent and marks the parent failed when the sub-test failed.  The
  body is a closure: \<open>'s\<close> is the state of the variables it captures.
\<close>

fun T_add :: "T \<Rightarrow> T \<Rightarrow> T" where
  "T_add (T n f s out subs) child = T n (f \<or> T_failed child) s out (subs @ [child])"

definition T_Run :: "T \<Rightarrow> string \<Rightarrow> (T \<Rightarrow> 's \<Rightarrow> unit flow \<times> T \<times> 's) \<Rightarrow> 's \<Rightarrow> T \<times> 's" where
  "T_Run t n body s = (case body (T_new n) s of (fl, child, s') \<Rightarrow> (T_add t child, s'))"

section \<open>Features and steps (packages features and types)\<close>

text \<open>
  Modelled from the spec: the packages \<open>features\<close> and \<open>types\<close> are not among
  the source files.  The spec gives a step as a name, a level among Setup,
  Assess and Teardown, and a function of the context, the test handle and the
  configuration that returns a context; a feature as a name, labels and an
  ordered sequence of steps; and \<open>GetStepsByLevel\<close> as the steps of one level
  in their original relative order.
\<close>

datatype Level = LevelSetup | LevelAssess | LevelTeardown

text \<open>
  A step function is handed \<open>t\<close> and the configuration pointer and may leave
  through \<open>t.FailNow\<close> or \<open>t.SkipNow\<close>: it gives the context it returns (or
  \<open>Goexit\<close>), the handle and the configuration as it left them.
\<close>

type_synonym 'c StepFunc = "'c Context \<Rightarrow> T \<Rightarrow> Config \<Rightarrow> 'c Context flow \<times> T \<times> Config"

record 'c Step =
  Step_Name :: string
  Step_Level :: Level
  Step_Func :: "'c StepFunc"

record 'c Feature =
  Feature_Name :: string
  Feature_Labels :: "string \<rightharpoonup> string"
  Feature_Steps :: "'c Step list"

definition GetStepsByLevel :: "'c Step list \<Rightarrow> Level \<Rightarrow> 'c Step list" where
  "GetStepsByLevel steps l = filter (\<lambda>s. Step_Level s = l) steps"

section \<open>execFeature\<close>

text \<open>\<open>re != nil && !re.MatchString(name)\<close>\<close>

definition notMatched :: "Regexp option \<Rightarrow> string \<Rightarrow> bool" where
  "notMatched re n = (case re of None \<Rightarrow> False | Some r \<Rightarrow> \<not> r n)"

definition quoted :: "string \<Rightarrow> string" where
  "quoted n = [CHR 0x22] @ n @ [CHR 0x22]"

text \<open>
  The loops over the setups and over the teardowns:
  \<open>for _, s := range steps { ctx = s.Func()(ctx, t, e.cfg) }\<close> on the goroutine
  of the feature's sub-test.  A step that leaves through \<open>Goexit\<close> assigns
  nothing to \<open>ctx\<close> and ends the sub-test.
\<close>

fun runSteps :: "'c Step list \<Rightarrow> 'c Context \<Rightarrow> T \<Rightarrow> Config \<Rightarrow> unit flow \<times> 'c Context \<times> T \<times> Config" where
  "runSteps [] c t g = (Returned (), c, t, g)"
| "runSteps (s # ss) c t g =
     (case Step_Func s c t g of
        (Goexit, t', g') \<Rightarrow> (Goexit, c, t', g')
      | (Returned c', t', g') \<Rightarrow> runSteps ss c' t' g')"

text \<open>
  The body of an assessment's sub-test; the closure captures \<open>ctx\<close> and
  reaches the configuration through \<open>e.cfg\<close>.
\<close>

definition assessBody :: "'c Step \<Rightarrow> T \<Rightarrow> 'c Context \<times> Config \<Rightarrow> unit flow \<times> T \<times> 'c Context \<times> Config" where
  "assessBody assess t s =
     (case s of (c, g) \<Rightarrow>
        if notMatched (assessmentRegex g) (Step_Name assess)
        then (Goexit,
              T_Skipf t (''Skipping assessment '' @ quoted (Step_Name assess) @ '': name not matched''),
              c, g)
        else (case Step_Func assess c t g of
                (Goexit, t', g') \<Rightarrow> (Goexit, t', c, g')
              | (Returned c', t', g') \<Rightarrow> (Returned (), t', c', g')))"

fun runAssessments :: "'c Step list \<Rightarrow> 'c Context \<Rightarrow> T \<Rightarrow> Config \<Rightarrow> 'c Context \<times> T \<times> Config" where
  "runAssessments [] c t g = (c, t, g)"
| "runAssessments (assess # rest) c t g =
     (case T_Run t (Step_Name assess) (assessBody assess) (c, g) of
        (t', c', g') \<Rightarrow> runAssessments rest c' t' g')"

text \<open>The body of the feature's sub-test.\<close>

definition featureBody :: "'c Feature \<Rightarrow> T \<Rightarrow> 'c Context \<times> Config \<Rightarrow> unit flow \<times> T \<times> 'c Context \<times> Config" where
  "featureBody f t s =
     (case s of (c, g) \<Rightarrow>
        if notMatched (featureRegex g) (Feature_Name f)
        then (Goexit,
              T_Skipf t (''Skipping feature '' @ quoted (Feature_Name f) @ '': name not matched''),
              c, g)
        else
          (case runSteps (GetStepsByLevel (Feature_Steps f) LevelSetup) c t g of
             (Goexit, c1, t1, g1) \<Rightarrow> (Goexit, t1, c1, g1)
           | (Returned u, c1, t1, g1) \<Rightarrow>
               (case runAssessments (GetStepsByLevel (Feature_Steps f) LevelAssess) c1 t1 g1 of
                  (c2, t2, g2) \<Rightarrow>
                    (case runSteps (GetStepsByLevel (Feature_Steps f) LevelTeardown) c2 t2 g2 of
                       (fl, c3, t3, g3) \<Rightarrow> (fl, t3, c3, g3)))))"

text \<open>
  \<open>execFeature\<close> returns the context; the handle and the configuration it
  leaves behind are returned with it.
\<close>

definition execFeature :: "'c testEnv \<Rightarrow> 'c Context \<Rightarrow> T \<Rightarrow> 'c Feature \<Rightarrow> 'c Context \<times> T \<times> Config" where
  "execFeature e c t f =
     (case T_Run t (Feature_Name f) (featureBody f) (c, cfg e) of
        (t', c', g') \<Rightarrow> (c', t', g'))"

section \<open>Test\<close>

text \<open>
  The loop that \<open>Test\<close> and \<open>Run\<close> share:
  \<open>for _, a := range as { if e.ctx, err = a.run(e.ctx, e.cfg); err != nil { ... } }\<close>
  with a body that does not return.  The assignment to \<open>e.ctx\<close> precedes the
  test of \<open>err\<close>.
\<close>

fun runActions :: "'c action list \<Rightarrow> 'c testEnv \<Rightarrow> 'c testEnv \<times> error option" where
  "runActions [] e = (e, None)"
| "runActions (a # as) e =
     (case run a (ctx e) (cfg e) of
        (c, Some err, g) \<Rightarrow> (e\<lparr>ctx := c, cfg := g\<rparr>, Some err)
      | (c, None, g) \<Rightarrow> runActions as (e\<lparr>ctx := c, cfg := g\<rparr>))"

datatype testOutcome = TestReturned | TestGoexit | TestPanic string

text \<open>The loop over the features, with the messages as the source has them.\<close>

fun Test_features :: "'c action list \<Rightarrow> 'c action list \<Rightarrow> 'c Feature list \<Rightarrow> 'c testEnv \<Rightarrow> T
    \<Rightarrow> testOutcome \<times> 'c testEnv \<times> T" where
  "Test_features beforeFeatureActions afterFeatureActions [] e t = (TestReturned, e, t)"
| "Test_features beforeFeatureActions afterFeatureActions (feature # rest) e t =
     (case runActions beforeFeatureActions e of
        (e1, Some err) \<Rightarrow> (TestGoexit, e1, T_Fatalf t (''BeforeEachTest failure: '' @ err))
      | (e1, None) \<Rightarrow>
          (case execFeature e1 (ctx e1) t feature of
             (c, t2, g) \<Rightarrow>
               (case runActions afterFeatureActions (e1\<lparr>ctx := c, cfg := g\<rparr>) of
                  (e3, Some err) \<Rightarrow> (TestGoexit, e3, T_Fatalf t2 (''BeforeEachTest failure: '' @ err))
                | (e3, None) \<Rightarrow> Test_features beforeFeatureActions afterFeatureActions rest e3 t2)))"

definition Test :: "'c testEnv \<Rightarrow> T \<Rightarrow> 'c Feature list \<Rightarrow> testOutcome \<times> 'c testEnv \<times> T" where
  "Test e t testFeatures =
     (if ctx e = None then (TestPanic ''context not set'', e, t)
      else if length testFeatures = 0
      then (TestReturned, e, T_Log t ''No test testFeatures provided, skipping test'')
      else
        (case runActions (getBeforeTestActions e) e of
           (e1, Some err) \<Rightarrow> (TestGoexit, e1, T_Fatalf t (''BeforeEachTest failure: '' @ err))
         | (e1, None) \<Rightarrow>
             (case Test_features (getBeforeFeatureActions e1) (getAfterFeatureActions e1)
                     testFeatures e1 t of
                (TestReturned, e2, t2) \<Rightarrow>
                  (case runActions (getAfterTestActions e2) e2 of
                     (e3, Some err) \<Rightarrow> (TestGoexit, e3, T_Fatalf t2 (''AfterEachTest failure: '' @ err))
                   | (e3, None) \<Rightarrow> (TestReturned, e3, t2))
              | (TestGoexit, e2, t2) \<Rightarrow> (TestGoexit, e2, t2)
              | (TestPanic p, e2, t2) \<Rightarrow> (TestPanic p, e2, t2))))"

section \<open>Run\<close>

text \<open>
  \<open>m.Run()\<close> is the test runner of the standard library: it runs the tests of
  the package, which reach the environment through its pointer, and gives the
  exit code.  It is the parameter \<open>m\<close>: from the environment it finds to the
  exit code and the environment it leaves.  \<open>log.Fatal\<close> prints and calls
  \<open>os.Exit(1)\<close>; \<open>log.Println\<close> prints.  The printed lines are returned.
\<close>

datatype runOutcome = RunReturned int | RunExit int | RunPanic string

fun runFinishes :: "'c action list \<Rightarrow> 'c testEnv \<Rightarrow> string list \<Rightarrow> 'c testEnv \<times> string list" where
  "runFinishes [] e logged = (e, logged)"
| "runFinishes (fin # fins) e logged =
     (case run fin (ctx e) (cfg e) of
        (c, Some err, g) \<Rightarrow> runFinishes fins (e\<lparr>ctx := c, cfg := g\<rparr>) (logged @ [err])
      | (c, None, g) \<Rightarrow> runFinishes fins (e\<lparr>ctx := c, cfg := g\<rparr>) logged)"

definition Run :: "'c testEnv \<Rightarrow> ('c testEnv \<Rightarrow> int \<times> 'c testEnv) \<Rightarrow> runOutcome \<times> 'c testEnv \<times> string list" where
  "Run e m =
     (if ctx e = None then (RunPanic ''context not set'', e, [])
      else
        (case runActions (getSetupActions e) e of
           (e1, Some err) \<Rightarrow> (RunExit 1, e1, [err])
         | (e1, None) \<Rightarrow>
             (case m e1 of
                (exitCode, e2) \<Rightarrow>
                  (case runFinishes (getFinishActions e2) e2 [] of
                     (e3, logged) \<Rightarrow> (RunReturned exitCode, e3, logged)))))"

section \<open>Reference notions for the statements\<close>

text \<open>
  These definitions are not code of the repository: they say, in the spec's
  words, what the loops of the engine are compared with.
\<close>

text \<open>
  One step run the way its level asks: an assessment in a sub-test of its own
  name (which a \<open>Goexit\<close> inside it does not leave), a setup or a teardown
  directly on the feature's handle.
\<close>

definition runStep :: "'c Step \<Rightarrow> 'c Context \<Rightarrow> T \<Rightarrow> Config \<Rightarrow> unit flow \<times> 'c Context \<times> T \<times> Config" where
  "runStep s c t g =
     (if Step_Level s = LevelAssess
      then (case T_Run t (Step_Name s) (assessBody s) (c, g) of
              (t', c', g') \<Rightarrow> (Returned (), c', t', g'))
      else (case Step_Func s c t g of
              (Goexit, t', g') \<Rightarrow> (Goexit, c, t', g')
            | (Returned c', t', g') \<Rightarrow> (Returned (), c', t', g')))"

text \<open>
  A single pass over a list of steps, front to back, each step receiving what
  the step before it left; the pass ends where a step leaves the feature's
  goroutine.
\<close>

fun runInOrder :: "'c Step list \<Rightarrow> 'c Context \<Rightarrow> T \<Rightarrow> Config \<Rightarrow> unit flow \<times> 'c Context \<times> T \<times> Config" where
  "runInOrder [] c t g = (Returned (), c, t, g)"
| "runInOrder (s # ss) c t g =
     (case runStep s c t g of
        (Goexit, r) \<Rightarrow> (Goexit, r)
      | (Returned u, c', t', g') \<Rightarrow> runInOrder ss c' t' g')"

text \<open>
  Threading: every action of the list is run, in order, on the context and
  configuration the one before it returned, whatever error it reports.
\<close>

definition threadAction :: "'c action \<Rightarrow> 'c Context \<times> Config \<Rightarrow> 'c Context \<times> Config" where
  "threadAction a s = (case s of (c, g) \<Rightarrow> (case run a c g of (c', err, g') \<Rightarrow> (c', g')))"

definition threadActions :: "'c action list \<Rightarrow> 'c Context \<times> Config \<Rightarrow> 'c Context \<times> Config" where
  "threadActions as s = foldl (\<lambda>s a. threadAction a s) s as"

text \<open>The errors the actions of a threaded list report, in order.\<close>

fun errorsOf :: "'c action list \<Rightarrow> 'c Context \<times> Config \<Rightarrow> error list" where
  "errorsOf [] s = []"
| "errorsOf (a # as) s =
     (case run a (fst s) (snd s) of
        (c', Some err, g') \<Rightarrow> err # errorsOf as (c', g')
      | (c', None, g') \<Rightarrow> errorsOf as (c', g'))"

section \<open>Fixtures in the manner of env\_test.go\<close>

text \<open>
  The tests of the package use hooks and assessments that update an integer;
  here the integer is carried by the context.
\<close>

definition hookOf :: "(int \<Rightarrow> int) \<Rightarrow> int EnvFunc" where
  "hookOf h = (\<lambda>c g. (map_option h c, None, g))"

definition failingHook :: "error \<Rightarrow> int EnvFunc" where
  "failingHook err = (\<lambda>c g. (c, Some err, g))"

definition assessOf :: "string \<Rightarrow> (int \<Rightarrow> int) \<Rightarrow> int Step" where
  "assessOf n h = \<lparr>Step_Name = n, Step_Level = LevelAssess,
                    Step_Func = (\<lambda>c t g. (Returned (map_option h c), t, g))\<rparr>"

text \<open>A step that appends its own name to the list the context carries.\<close>

definition notingStep :: "string \<Rightarrow> Level \<Rightarrow> string list Step" where
  "notingStep n l = \<lparr>Step_Name = n, Step_Level = l,
                      Step_Func = (\<lambda>c t g. (Returned (map_option (\<lambda>ns. ns @ [n]) c), t, g))\<rparr>"

definition featureOf :: "string \<Rightarrow> 'c Step list \<Rightarrow> 'c Feature" where
  "featureOf n steps = \<lparr>Feature_Name = n, Feature_Labels = Map.empty, Feature_Steps = steps\<rparr>"

text \<open>The compiled patterns \<open>^keep$\<close> and \<open>^add-\<close>.\<close>

definition keepOnly :: Regexp where
  "keepOnly s = (s = ''keep'')"

definition addPrefixed :: Regexp where
  "addPrefixed s = (take 4 s = ''add-'')"

text \<open>
  A test runner that gives the exit code \<open>code\<close> and whose tests add 10 to
  the value the context carries.
\<close>

definition runnerOf :: "int \<Rightarrow> int testEnv \<Rightarrow> int \<times> int testEnv" where
  "runnerOf code e = (code, e\<lparr>ctx := map_option (\<lambda>v. v + 10) (ctx e)\<rparr>)"

text \<open>A suite whose second Setup action fails, between two that would succeed.\<close>

definition failingSuite :: "int testEnv" where
  "failingSuite =
     Setup (Finish (Setup (Finish (Setup (newTestEnv 0) [hookOf (\<lambda>v. v + 1)])
                              [failingHook ''cleanup failed'', hookOf (\<lambda>v. v + 1000)])
                       [failingHook ''no cluster''])
               [hookOf (\<lambda>v. v * 2)])
        [hookOf (\<lambda>v. v + 100)]"

text \<open>A suite whose first Finish action fails and whose second doubles the value.\<close>

definition cleanupSuite :: "int testEnv" where
  "cleanupSuite =
     Finish (Finish (Setup (newTestEnv 0) [hookOf (\<lambda>v. v + 1)])
               [failingHook ''cleanup failed'', hookOf (\<lambda>v. v + 1000)])
        [hookOf (\<lambda>v. v * 2)]"

text \<open>
  An environment with the feature pattern \<open>^keep$\<close>, a BeforeEachFeature hook
  that adds 20 and an AfterEachFeature hook that doubles.
\<close>

definition bracketEnv :: "int testEnv" where
  "bracketEnv =
     AfterEachFeature
       (BeforeEachFeature (NewWithConfig 0 (WithFeatureRegex New_Config keepOnly))
          [hookOf (\<lambda>v. v + 20)])
       [hookOf (\<lambda>v. v * 2)]"

text \<open>The same environment with an AfterEachFeature hook that fails.\<close>

definition bracketFailEnv :: "int testEnv" where
  "bracketFailEnv =
     AfterEachFeature
       (BeforeEachFeature (NewWithConfig 0 (WithFeatureRegex New_Config keepOnly))
          [hookOf (\<lambda>v. v + 20)])
       [failingHook ''boom'']"

section \<open>Properties of the action registry\<close>

lemma getActionsByRole_loop_filter:
  "getActionsByRole_loop as r result = result @ filter (\<lambda>a. role a = r) as"
  by (induction as arbitrary: result) simp_all

lemma getActionsByRole_filter:
  "getActionsByRole e r = filter (\<lambda>a. role a = r) (actions e)"
  by (simp add: getActionsByRole_def getActionsByRole_loop_filter)

lemma actions_register:
  "actions (register e (r, fs)) =
     actions e @ (if fs = [] then [] else [\<lparr>role = r, funcs = fs\<rparr>])"
  by (cases r)
     (simp_all add: Setup_def BeforeEachTest_def BeforeEachFeature_def
        AfterEachFeature_def AfterEachTest_def Finish_def)

lemma register_no_funcs: "register e (r, []) = e"
  by (cases r)
     (simp_all add: Setup_def BeforeEachTest_def BeforeEachFeature_def
        AfterEachFeature_def AfterEachTest_def Finish_def)

lemma actions_foldl_register:
  "actions (foldl register e calls) =
     actions e @ map (\<lambda>(r, fs). \<lparr>role = r, funcs = fs\<rparr>) (filter (\<lambda>(r, fs). fs \<noteq> []) calls)"
proof (induction calls arbitrary: e)
  case Nil
  show ?case by simp
next
  case (Cons c calls)
  obtain r fs where c: "c = (r, fs)" by (cases c)
  show ?case
    by (simp add: Cons.IH c actions_register)
qed

text \<open>
  Claim C4.  After any sequence of registration calls (under any of the six
  roles) on an environment \<open>e\<close>, \<open>getActionsByRole r\<close> gives what it gave on
  \<open>e\<close> followed by exactly the actions of the calls made under role \<open>r\<close> with
  at least one function, in the order of the calls; on a fresh environment
  that is the whole answer.  A call with no function returns the environment
  unchanged.
\<close>

theorem getActionsByRole_registration_order:
  "getActionsByRole (foldl register e calls) r = getActionsByRole e r @ registered r calls
   \<and> getActionsByRole (foldl register (newTestEnv b) calls) r = registered r calls
   \<and> register e (r', []) = e"
proof -
  have sel: "filter (\<lambda>a. role a = r)
               (map (\<lambda>(r, fs). \<lparr>role = r, funcs = fs\<rparr>) (filter (\<lambda>(r, fs). fs \<noteq> []) cs))
             = registered r cs" for cs :: "(actionRole \<times> 'a EnvFunc list) list"
    unfolding registered_def
    by (induction cs) (auto split: prod.splits)
  have g: "getActionsByRole (foldl register e' calls) r = getActionsByRole e' r @ registered r calls"
    for e' :: "'a testEnv"
    by (simp add: getActionsByRole_filter actions_foldl_register sel)
  have n: "getActionsByRole (newTestEnv b) r = []"
    by (simp add: getActionsByRole_def newTestEnv_def)
  show ?thesis
    using g[of e] g[of "newTestEnv b"] n register_no_funcs[of e r'] by simp
qed

section \<open>Properties of RandomName\<close>

lemma length_EncodeToString: "length (EncodeToString bs) = 2 * length bs"
  by (induction bs) simp_all

text \<open>
  Claim C9.  With \<open>n\<close> the requested length, or 32 when the request is 0:
  when the prefix has at least \<open>n\<close> bytes, \<open>RandomName\<close> returns the prefix
  itself; otherwise it returns the first \<open>n\<close> bytes of the prefix, a dash and
  the hexadecimal encoding of \<open>n\<close> random bytes, that string is long enough
  for the slice, and the result has length exactly \<open>n\<close>.
\<close>

theorem RandomName_length_and_form:
  "(let n = (if n0 = 0 then 32 else n0) in
     (int (length prefix) \<ge> n \<longrightarrow> RandomName src prefix n0 = prefix)
   \<and> (int (length prefix) < n \<longrightarrow>
        RandomName src prefix n0 = take (nat n) (prefix @ ''-'' @ EncodeToString (rand_Read src (nat n)))
      \<and> int (length (RandomName src prefix n0)) = n
      \<and> nat n \<le> length (prefix @ ''-'' @ EncodeToString (rand_Read src (nat n)))))"
  by (auto simp: RandomName_def Let_def length_EncodeToString rand_Read_def)

theorem RandomName_length_and_form_witness:
  "int (length ''ns'') < 4
   \<and> RandomName (\<lambda>i. 0xAB) ''ns'' 4 = ''ns-a''
   \<and> int (length (RandomName (\<lambda>i. 0xAB) ''ns'' 4)) = 4
   \<and> int (length ''my-cluster'') \<ge> 10
   \<and> RandomName (\<lambda>i. 0xAB) ''my-cluster'' 10 = ''my-cluster''"
proof -
  have e: "EncodeToString (rand_Read (\<lambda>i. 0xAB) 4) = ''abababab''"
    by (simp add: rand_Read_def hexDigit_def upt_rec)
  show ?thesis
    using RandomName_length_and_form [of 4 "''ns''" "\<lambda>i. 0xAB"]
          RandomName_length_and_form [of 10 "''my-cluster''" "\<lambda>i. 0xAB"]
    by (simp add: e)
qed

section \<open>Properties of Test and execFeature\<close>

lemma T_add_expand:
  "T_add t child =
     T (T_name t) (T_failed t \<or> T_failed child) (T_skipped t) (T_output t) (T_subtests t @ [child])"
  by (cases t) simp

text \<open>
  Claim C8.  On an environment whose context is set, \<open>Test\<close> with no feature
  returns normally: the environment (context, configuration and actions) is
  the one it was given, and the handle differs only by the logged line.
  Whatever the context, the environment is returned as given and no sub-test
  is opened, so no hook and no step has run.
\<close>

theorem Test_no_features:
  "(ctx e \<noteq> None \<longrightarrow>
      Test e t [] = (TestReturned, e,
        T (T_name t) (T_failed t) (T_skipped t)
          (T_output t @ [''No test testFeatures provided, skipping test'']) (T_subtests t)))
   \<and> fst (snd (Test e t [])) = e
   \<and> T_subtests (snd (snd (Test e t []))) = T_subtests t"
  by (cases t) (simp add: Test_def)

theorem Test_no_features_witness:
  "ctx (BeforeEachTest (newTestEnv 7) [failingHook ''boom'']) \<noteq> None
   \<and> Test (BeforeEachTest (newTestEnv 7) [failingHook ''boom'']) (T_new ''TestX'') [] =
       (TestReturned, BeforeEachTest (newTestEnv 7) [failingHook ''boom''],
        T ''TestX'' False False [''No test testFeatures provided, skipping test''] [])"
  using Test_no_features [of "BeforeEachTest (newTestEnv 7) [failingHook ''boom'']" "T_new ''TestX''"]
  by (simp add: BeforeEachTest_def newTestEnv_def T_new_def)

text \<open>
  Claim C5.  When the configuration holds a feature-name pattern that the
  feature's name does not match, \<open>execFeature\<close> returns the context it was
  given and leaves the configuration as it was; the handle gains one sub-test,
  named after the feature, marked skipped and not failed, with the skip
  message and no sub-test of its own.  The result does not depend on the
  feature's steps: none of them has run.
\<close>

theorem execFeature_skips_unmatched_feature:
  assumes "featureRegex (cfg e) = Some re" and "\<not> re (Feature_Name f)"
  shows "execFeature e c t f =
           (c,
            T (T_name t) (T_failed t) (T_skipped t) (T_output t)
              (T_subtests t @
                 [T (Feature_Name f) False True
                    [''Skipping feature '' @ quoted (Feature_Name f) @ '': name not matched''] []]),
            cfg e)"
  using assms
  by (simp add: execFeature_def T_Run_def featureBody_def notMatched_def T_new_def T_add_expand)

theorem execFeature_skips_unmatched_feature_witness:
  "featureRegex (cfg (NewWithConfig 0 (WithFeatureRegex New_Config keepOnly))) = Some keepOnly
   \<and> \<not> keepOnly (Feature_Name (featureOf ''skip'' [assessOf ''assess'' (\<lambda>v. v + 1)]))
   \<and> execFeature (NewWithConfig 0 (WithFeatureRegex New_Config keepOnly)) (Some 42) (T_new ''TestX'')
        (featureOf ''skip'' [assessOf ''assess'' (\<lambda>v. v + 1)]) =
       (Some 42,
        T ''TestX'' False False []
          [T ''skip'' False True [''Skipping feature '' @ quoted ''skip'' @ '': name not matched''] []],
        WithFeatureRegex New_Config keepOnly)
   \<and> execFeature (NewWithConfig 0 (WithFeatureRegex New_Config keepOnly)) (Some 42) (T_new ''TestX'')
        (featureOf ''keep'' [assessOf ''assess'' (\<lambda>v. v + 1)]) =
       (Some 43,
        T ''TestX'' False False [] [T ''keep'' False False [] [T ''assess'' False False [] []]],
        WithFeatureRegex New_Config keepOnly)"
proof -
  let ?e = "NewWithConfig (0::int) (WithFeatureRegex New_Config keepOnly)"
  let ?f = "featureOf ''skip'' [assessOf ''assess'' (\<lambda>v. v + 1)]"
  have h1: "featureRegex (cfg ?e) = Some keepOnly"
    by (simp add: NewWithConfig_def WithFeatureRegex_def)
  have h2: "\<not> keepOnly (Feature_Name ?f)"
    by (simp add: keepOnly_def featureOf_def)
  have k: "execFeature ?e (Some 42) (T_new ''TestX'')
             (featureOf ''keep'' [assessOf ''assess'' (\<lambda>v. v + 1)]) =
           (Some 43,
            T ''TestX'' False False [] [T ''keep'' False False [] [T ''assess'' False False [] []]],
            WithFeatureRegex New_Config keepOnly)"
    by (simp add: execFeature_def T_Run_def featureBody_def notMatched_def T_new_def
          NewWithConfig_def WithFeatureRegex_def New_Config_def keepOnly_def featureOf_def
          assessOf_def GetStepsByLevel_def assessBody_def)
  show ?thesis
    using execFeature_skips_unmatched_feature [OF h1 h2, of "Some 42" "T_new ''TestX''"] h1 h2 k
    by (simp add: T_new_def featureOf_def NewWithConfig_def)
qed

lemma runAssessments_append:
  "runAssessments (xs @ ys) c t g =
     (case runAssessments xs c t g of (c', t', g') \<Rightarrow> runAssessments ys c' t' g')"
  by (induction xs arbitrary: c t g) (simp_all split: prod.splits)

text \<open>
  Claim C6.  In the loop over a feature's assessments, at any position: when
  the configuration then holds an assessment-name pattern that the step's name
  does not match, the step's function is not applied, the context and the
  configuration pass on unchanged, a sub-test of the step's name is recorded as
  skipped, and the loop goes on with the assessments that follow.  When no
  pattern is configured or the name matches, the step's function is applied on
  a fresh sub-test of the step's name, and the loop goes on likewise.
\<close>

theorem assessment_skipped_individually:
  assumes "runAssessments before c t g = (c1, t1, g1)"
  shows "(assessmentRegex g1 = Some re \<and> \<not> re (Step_Name a) \<longrightarrow>
            runAssessments (before @ a # after) c t g =
              runAssessments after c1
                (T_add t1 (T (Step_Name a) False True
                   [''Skipping assessment '' @ quoted (Step_Name a) @ '': name not matched''] []))
                g1)
       \<and> ((case assessmentRegex g1 of None \<Rightarrow> True | Some re' \<Rightarrow> re' (Step_Name a)) \<longrightarrow>
            runAssessments (before @ a # after) c t g =
              (case Step_Func a c1 (T_new (Step_Name a)) g1 of
                 (Returned c2, t2, g2) \<Rightarrow> runAssessments after c2 (T_add t1 t2) g2
               | (Goexit, t2, g2) \<Rightarrow> runAssessments after c1 (T_add t1 t2) g2))"
  using assms
  by (auto simp: runAssessments_append T_Run_def assessBody_def T_new_def notMatched_def
           split: prod.splits flow.splits option.splits)

theorem assessment_skipped_individually_witness:
  "runAssessments [assessOf ''add-one'' (\<lambda>v. v + 1), assessOf ''add-two'' (\<lambda>v. v + 2)]
      (Some 42) (T_new ''test-feat'') (WithAssessmentRegex New_Config addPrefixed) =
     (Some 45,
      T ''test-feat'' False False [] [T ''add-one'' False False [] [], T ''add-two'' False False [] []],
      WithAssessmentRegex New_Config addPrefixed)
   \<and> assessmentRegex (WithAssessmentRegex New_Config addPrefixed) = Some addPrefixed
   \<and> \<not> addPrefixed (Step_Name (assessOf ''take-one'' (\<lambda>v. v - 1)))
   \<and> runAssessments
        [assessOf ''add-one'' (\<lambda>v. v + 1), assessOf ''add-two'' (\<lambda>v. v + 2),
         assessOf ''take-one'' (\<lambda>v. v - 1)]
        (Some 42) (T_new ''test-feat'') (WithAssessmentRegex New_Config addPrefixed) =
       (Some 45,
        T ''test-feat'' False False []
          [T ''add-one'' False False [] [], T ''add-two'' False False [] [],
           T ''take-one'' False True
             [''Skipping assessment '' @ quoted ''take-one'' @ '': name not matched''] []],
        WithAssessmentRegex New_Config addPrefixed)
   \<and> execFeature (NewWithConfig 0 (WithAssessmentRegex New_Config addPrefixed)) (Some 42)
        (T_new ''TestX'')
        (featureOf ''test-feat''
           [assessOf ''add-one'' (\<lambda>v. v + 1), assessOf ''add-two'' (\<lambda>v. v + 2),
            assessOf ''take-one'' (\<lambda>v. v - 1)]) =
       (Some 45,
        T ''TestX'' False False []
          [T ''test-feat'' False False []
             [T ''add-one'' False False [] [], T ''add-two'' False False [] [],
              T ''take-one'' False True
                [''Skipping assessment '' @ quoted ''take-one'' @ '': name not matched''] []]],
        WithAssessmentRegex New_Config addPrefixed)"
proof -
  let ?g = "WithAssessmentRegex New_Config addPrefixed"
  let ?before = "[assessOf ''add-one'' (\<lambda>v. v + 1), assessOf ''add-two'' (\<lambda>v. v + 2)]"
  let ?t1 = "T ''test-feat'' False False [] [T ''add-one'' False False [] [], T ''add-two'' False False [] []]"
  have h: "runAssessments ?before (Some 42) (T_new ''test-feat'') ?g = (Some 45, ?t1, ?g)"
    by (simp add: T_Run_def assessBody_def notMatched_def T_new_def WithAssessmentRegex_def
          New_Config_def addPrefixed_def assessOf_def)
  have r: "assessmentRegex ?g = Some addPrefixed"
    by (simp add: WithAssessmentRegex_def)
  have n: "\<not> addPrefixed (Step_Name (assessOf ''take-one'' (\<lambda>v. v - 1)))"
    by (simp add: addPrefixed_def assessOf_def)
  have x: "execFeature (NewWithConfig 0 ?g) (Some 42) (T_new ''TestX'')
        (featureOf ''test-feat''
           [assessOf ''add-one'' (\<lambda>v. v + 1), assessOf ''add-two'' (\<lambda>v. v + 2),
            assessOf ''take-one'' (\<lambda>v. v - 1)]) =
       (Some 45,
        T ''TestX'' False False []
          [T ''test-feat'' False False []
             [T ''add-one'' False False [] [], T ''add-two'' False False [] [],
              T ''take-one'' False True
                [''Skipping assessment '' @ quoted ''take-one'' @ '': name not matched''] []]],
        ?g)"
    by (simp add: execFeature_def T_Run_def featureBody_def notMatched_def T_new_def
          NewWithConfig_def WithAssessmentRegex_def New_Config_def addPrefixed_def featureOf_def
          assessOf_def GetStepsByLevel_def assessBody_def)
  have h': "runAssessments [assessOf ''add-one'' (\<lambda>v. v + 1)] (Some 42) (T_new ''test-feat'') ?g =
             (Some 43, T ''test-feat'' False False [] [T ''add-one'' False False [] []], ?g)"
    by (simp add: T_Run_def assessBody_def notMatched_def T_new_def WithAssessmentRegex_def
          New_Config_def addPrefixed_def assessOf_def)
  have m: "case assessmentRegex ?g of None \<Rightarrow> True
           | Some re' \<Rightarrow> re' (Step_Name (assessOf ''add-two'' (\<lambda>v. v + 2)))"
    by (simp add: WithAssessmentRegex_def addPrefixed_def assessOf_def)
  have y: "runAssessments
             ([assessOf ''add-one'' (\<lambda>v. v + 1)] @ assessOf ''add-two'' (\<lambda>v. v + 2)
                # [assessOf ''take-one'' (\<lambda>v. v - 1)])
             (Some 42) (T_new ''test-feat'') ?g =
           (case Step_Func (assessOf ''add-two'' (\<lambda>v. v + 2)) (Some 43)
                   (T_new (Step_Name (assessOf ''add-two'' (\<lambda>v. v + 2)))) ?g of
              (Returned c2, t2, g2) \<Rightarrow>
                runAssessments [assessOf ''take-one'' (\<lambda>v. v - 1)] c2
                  (T_add (T ''test-feat'' False False [] [T ''add-one'' False False [] []]) t2) g2
            | (Goexit, t2, g2) \<Rightarrow>
                runAssessments [assessOf ''take-one'' (\<lambda>v. v - 1)] (Some 43)
                  (T_add (T ''test-feat'' False False [] [T ''add-one'' False False [] []]) t2) g2)"
    using assessment_skipped_individually
            [OF h', of addPrefixed "assessOf ''add-two'' (\<lambda>v. v + 2)"
               "[assessOf ''take-one'' (\<lambda>v. v - 1)]"] m
    by blast
  have z: "runAssessments
        [assessOf ''add-one'' (\<lambda>v. v + 1), assessOf ''add-two'' (\<lambda>v. v + 2),
         assessOf ''take-one'' (\<lambda>v. v - 1)]
        (Some 42) (T_new ''test-feat'') ?g =
       (Some 45,
        T ''test-feat'' False False []
          [T ''add-one'' False False [] [], T ''add-two'' False False [] [],
           T ''take-one'' False True
             [''Skipping assessment '' @ quoted ''take-one'' @ '': name not matched''] []],
        ?g)"
    using y
    by (simp add: T_Run_def assessBody_def notMatched_def T_new_def WithAssessmentRegex_def
          New_Config_def addPrefixed_def assessOf_def)
  show ?thesis
    using assessment_skipped_individually [OF h, of addPrefixed "assessOf ''take-one'' (\<lambda>v. v - 1)" "[]"]
          h r n x z
    by (simp add: assessOf_def)
qed

lemma runInOrder_append:
  "runInOrder (xs @ ys) c t g =
     (case runInOrder xs c t g of
        (Goexit, r) \<Rightarrow> (Goexit, r)
      | (Returned u, c', t', g') \<Rightarrow> runInOrder ys c' t' g')"
  by (induction xs arbitrary: c t g) (simp_all split: prod.splits flow.splits)

lemma runInOrder_feature_level:
  "\<forall>s \<in> set xs. Step_Level s \<noteq> LevelAssess \<Longrightarrow> runInOrder xs c t g = runSteps xs c t g"
  by (induction xs arbitrary: c t g) (simp_all add: runStep_def split: prod.splits flow.splits)

lemma runInOrder_assess_level:
  "\<forall>s \<in> set xs. Step_Level s = LevelAssess \<Longrightarrow>
     runInOrder xs c t g = (case runAssessments xs c t g of (c', t', g') \<Rightarrow> (Returned (), c', t', g'))"
  by (induction xs arbitrary: c t g) (simp_all add: runStep_def split: prod.splits flow.splits)

text \<open>
  Claim C1.  For a feature that the feature-name pattern does not skip,
  \<open>execFeature\<close> is one pass, front to back, over the feature's Setup steps,
  then its Assess steps, then its Teardown steps, each group in the order in
  which the steps were declared (\<open>filter\<close> keeps the order of the list),
  whatever the order of the levels in the declaration; the pass runs on a
  fresh sub-test named after the feature.
\<close>

theorem execFeature_runs_levels_in_order:
  assumes "case featureRegex (cfg e) of None \<Rightarrow> True | Some re \<Rightarrow> re (Feature_Name f)"
  shows "execFeature e c t f =
           (case runInOrder
                   (filter (\<lambda>s. Step_Level s = LevelSetup) (Feature_Steps f)
                    @ filter (\<lambda>s. Step_Level s = LevelAssess) (Feature_Steps f)
                    @ filter (\<lambda>s. Step_Level s = LevelTeardown) (Feature_Steps f))
                   c (T_new (Feature_Name f)) (cfg e) of
              (fl, c', t', g') \<Rightarrow> (c', T_add t t', g'))"
proof -
  let ?S = "filter (\<lambda>s. Step_Level s = LevelSetup) (Feature_Steps f)"
  let ?A = "filter (\<lambda>s. Step_Level s = LevelAssess) (Feature_Steps f)"
  let ?D = "filter (\<lambda>s. Step_Level s = LevelTeardown) (Feature_Steps f)"
  have nm: "\<not> notMatched (featureRegex (cfg e)) (Feature_Name f)"
    using assms by (simp add: notMatched_def split: option.splits)
  have s: "runInOrder ?S c' t' g' = runSteps ?S c' t' g'" for c' :: "'a Context" and t' g'
    by (rule runInOrder_feature_level) simp
  have d: "runInOrder ?D c' t' g' = runSteps ?D c' t' g'" for c' :: "'a Context" and t' g'
    by (rule runInOrder_feature_level) simp
  have a: "runInOrder ?A c' t' g' =
            (case runAssessments ?A c' t' g' of (c'', t'', g'') \<Rightarrow> (Returned (), c'', t'', g''))"
    for c' :: "'a Context" and t' g'
    by (rule runInOrder_assess_level) simp
  show ?thesis
    by (simp add: execFeature_def T_Run_def featureBody_def nm GetStepsByLevel_def
          runInOrder_append s d a split: prod.splits flow.splits)
qed

theorem execFeature_runs_levels_in_order_witness:
  "(case featureRegex (cfg (newTestEnv [])) of None \<Rightarrow> True
    | Some re \<Rightarrow> re (Feature_Name (featureOf ''f''
        [notingStep ''T'' LevelTeardown, notingStep ''A2'' LevelAssess,
         notingStep ''S'' LevelSetup, notingStep ''A1'' LevelAssess])))
   \<and> execFeature (newTestEnv []) (Some []) (T_new ''TestX'')
        (featureOf ''f''
           [notingStep ''T'' LevelTeardown, notingStep ''A2'' LevelAssess,
            notingStep ''S'' LevelSetup, notingStep ''A1'' LevelAssess]) =
       (Some [''S'', ''A2'', ''A1'', ''T''],
        T ''TestX'' False False []
          [T ''f'' False False [] [T ''A2'' False False [] [], T ''A1'' False False [] []]],
        New_Config)"
proof -
  let ?f = "featureOf ''f''
              [notingStep ''T'' LevelTeardown, notingStep ''A2'' LevelAssess,
               notingStep ''S'' LevelSetup, notingStep ''A1'' LevelAssess]"
  have h: "case featureRegex (cfg (newTestEnv ([]::string list))) of None \<Rightarrow> True
           | Some re \<Rightarrow> re (Feature_Name ?f)"
    by (simp add: newTestEnv_def New_Config_def)
  show ?thesis
    using execFeature_runs_levels_in_order [OF h, of "Some []" "T_new ''TestX''"] h
    by (simp add: featureOf_def notingStep_def runStep_def T_Run_def assessBody_def
          notMatched_def T_new_def newTestEnv_def New_Config_def)
qed

lemma Test_features_append:
  "Test_features bfa afa (xs @ ys) e t =
     (case Test_features bfa afa xs e t of
        (TestReturned, e', t') \<Rightarrow> Test_features bfa afa ys e' t'
      | (TestGoexit, e', t') \<Rightarrow> (TestGoexit, e', t')
      | (TestPanic p, e', t') \<Rightarrow> (TestPanic p, e', t'))"
  by (induction xs arbitrary: e t) (simp_all split: prod.splits option.splits testOutcome.splits)

text \<open>
  Claim C10.  In the loop of \<open>Test\<close> over the features, at any position:
  when the BeforeEachFeature actions have run without error, leaving the
  environment \<open>e1\<close>, and the feature-name pattern of \<open>e1\<close> does not match
  the feature, the AfterEachFeature actions run next, on \<open>e1\<close> itself: the
  context the BeforeEachFeature actions produced, to which the skipped
  feature has added nothing.  When they succeed the loop goes on with the
  features that follow, from the environment they leave and the handle with
  the skipped sub-test added; when one of them fails the test ends there, in
  the environment it leaves.
\<close>

theorem skipped_feature_keeps_bracketing_hooks:
  assumes "Test_features bfa afa before e t = (TestReturned, e0, t0)"
      and "runActions bfa e0 = (e1, None)"
      and "featureRegex (cfg e1) = Some re" and "\<not> re (Feature_Name f)"
  shows "(runActions afa e1 = (e2, None) \<longrightarrow>
            Test_features bfa afa (before @ f # after) e t =
              Test_features bfa afa after e2
                (T_add t0 (T (Feature_Name f) False True
                   [''Skipping feature '' @ quoted (Feature_Name f) @ '': name not matched''] [])))
       \<and> (runActions afa e1 = (e2, Some err) \<longrightarrow>
            fst (Test_features bfa afa (before @ f # after) e t) = TestGoexit
          \<and> fst (snd (Test_features bfa afa (before @ f # after) e t)) = e2
          \<and> T_subtests (snd (snd (Test_features bfa afa (before @ f # after) e t))) =
              T_subtests t0 @
                [T (Feature_Name f) False True
                   [''Skipping feature '' @ quoted (Feature_Name f) @ '': name not matched''] []])"
proof -
  let ?skipped = "T (Feature_Name f) False True
                    [''Skipping feature '' @ quoted (Feature_Name f) @ '': name not matched''] []"
  have x: "execFeature e1 (ctx e1) t0 f = (ctx e1, T_add t0 ?skipped, cfg e1)"
    using assms(3,4)
    by (simp add: execFeature_def T_Run_def featureBody_def notMatched_def T_new_def)
  have s: "T_subtests (T_Fatalf (T_add t0 c) msg) = T_subtests t0 @ [c]" for c msg
    by (cases t0) simp
  show ?thesis
    by (simp add: Test_features_append assms(1,2) x s del: T_Fatalf.simps T_add.simps)
qed

lemma bracketEnv_fields:
  "ctx bracketEnv = Some 0" "cfg bracketEnv = WithFeatureRegex New_Config keepOnly"
  "actions bracketEnv =
     [\<lparr>role = roleBeforeFeature, funcs = [hookOf (\<lambda>v. v + 20)]\<rparr>,
      \<lparr>role = roleAfterFeature, funcs = [hookOf (\<lambda>v. v * 2)]\<rparr>]"
  by (simp_all add: bracketEnv_def BeforeEachFeature_def AfterEachFeature_def NewWithConfig_def)

lemma bracketFailEnv_fields:
  "ctx bracketFailEnv = Some 0" "cfg bracketFailEnv = WithFeatureRegex New_Config keepOnly"
  "actions bracketFailEnv =
     [\<lparr>role = roleBeforeFeature, funcs = [hookOf (\<lambda>v. v + 20)]\<rparr>,
      \<lparr>role = roleAfterFeature, funcs = [failingHook ''boom'']\<rparr>]"
  by (simp_all add: bracketFailEnv_def BeforeEachFeature_def AfterEachFeature_def NewWithConfig_def)

theorem skipped_feature_keeps_bracketing_hooks_witness:
  "Test_features (getBeforeFeatureActions bracketEnv) (getAfterFeatureActions bracketEnv) []
      bracketEnv (T_new ''TestX'') = (TestReturned, bracketEnv, T_new ''TestX'')
   \<and> runActions (getBeforeFeatureActions bracketEnv) bracketEnv = (bracketEnv\<lparr>ctx := Some 20\<rparr>, None)
   \<and> featureRegex (cfg (bracketEnv\<lparr>ctx := Some 20\<rparr>)) = Some keepOnly
   \<and> \<not> keepOnly (Feature_Name (featureOf ''skip'' [assessOf ''assess'' (\<lambda>v. v + 1000)]))
   \<and> Test_features (getBeforeFeatureActions bracketEnv) (getAfterFeatureActions bracketEnv)
        ([] @ featureOf ''skip'' [assessOf ''assess'' (\<lambda>v. v + 1000)] # [])
        bracketEnv (T_new ''TestX'') =
       (TestReturned, bracketEnv\<lparr>ctx := Some 40\<rparr>,
        T ''TestX'' False False []
          [T ''skip'' False True [''Skipping feature '' @ quoted ''skip'' @ '': name not matched''] []])
   \<and> Test bracketEnv (T_new ''TestX'')
        [featureOf ''skip'' [assessOf ''assess'' (\<lambda>v. v + 1000)],
         featureOf ''keep'' [assessOf ''assess'' (\<lambda>v. v + 1)]] =
       (TestReturned, bracketEnv\<lparr>ctx := Some 122\<rparr>,
        T ''TestX'' False False []
          [T ''skip'' False True [''Skipping feature '' @ quoted ''skip'' @ '': name not matched''] [],
           T ''keep'' False False [] [T ''assess'' False False [] []]])
   \<and> runActions (getBeforeFeatureActions bracketFailEnv) bracketFailEnv =
       (bracketFailEnv\<lparr>ctx := Some 20\<rparr>, None)
   \<and> runActions (getAfterFeatureActions bracketFailEnv) (bracketFailEnv\<lparr>ctx := Some 20\<rparr>) =
       (bracketFailEnv\<lparr>ctx := Some 20\<rparr>, Some ''boom'')
   \<and> fst (Test_features (getBeforeFeatureActions bracketFailEnv)
             (getAfterFeatureActions bracketFailEnv)
             ([] @ featureOf ''skip'' [assessOf ''assess'' (\<lambda>v. v + 1000)]
                # [featureOf ''keep'' [assessOf ''assess'' (\<lambda>v. v + 1)]])
             bracketFailEnv (T_new ''TestX'')) = TestGoexit
   \<and> fst (snd (Test_features (getBeforeFeatureActions bracketFailEnv)
             (getAfterFeatureActions bracketFailEnv)
             ([] @ featureOf ''skip'' [assessOf ''assess'' (\<lambda>v. v + 1000)]
                # [featureOf ''keep'' [assessOf ''assess'' (\<lambda>v. v + 1)]])
             bracketFailEnv (T_new ''TestX''))) = bracketFailEnv\<lparr>ctx := Some 20\<rparr>"
proof -
  let ?b = "getBeforeFeatureActions bracketEnv"
  let ?a = "getAfterFeatureActions bracketEnv"
  let ?skip = "featureOf ''skip'' [assessOf ''assess'' (\<lambda>v. v + 1000)]"
  have b: "?b = [\<lparr>role = roleBeforeFeature, funcs = [hookOf (\<lambda>v. v + 20)]\<rparr>]"
    by (simp add: getBeforeFeatureActions_def getActionsByRole_def bracketEnv_fields)
  have a: "?a = [\<lparr>role = roleAfterFeature, funcs = [hookOf (\<lambda>v. v * 2)]\<rparr>]"
    by (simp add: getAfterFeatureActions_def getActionsByRole_def bracketEnv_fields)
  have h1: "Test_features ?b ?a [] bracketEnv (T_new ''TestX'') = (TestReturned, bracketEnv, T_new ''TestX'')"
    by simp
  have h2: "runActions ?b bracketEnv = (bracketEnv\<lparr>ctx := Some 20\<rparr>, None)"
    by (simp add: b run_def hookOf_def bracketEnv_fields)
  have h3: "featureRegex (cfg (bracketEnv\<lparr>ctx := Some 20\<rparr>)) = Some keepOnly"
    by (simp add: bracketEnv_fields WithFeatureRegex_def)
  have h4: "\<not> keepOnly (Feature_Name ?skip)"
    by (simp add: keepOnly_def featureOf_def)
  have e: "bracketEnv\<lparr>ctx := c, cfg := WithFeatureRegex New_Config keepOnly\<rparr> = bracketEnv\<lparr>ctx := c\<rparr>" for c
    by (simp add: bracketEnv_def BeforeEachFeature_def AfterEachFeature_def NewWithConfig_def)
  have t: "Test bracketEnv (T_new ''TestX'')
        [?skip, featureOf ''keep'' [assessOf ''assess'' (\<lambda>v. v + 1)]] =
       (TestReturned, bracketEnv\<lparr>ctx := Some 122\<rparr>,
        T ''TestX'' False False []
          [T ''skip'' False True [''Skipping feature '' @ quoted ''skip'' @ '': name not matched''] [],
           T ''keep'' False False [] [T ''assess'' False False [] []]])"
    by (simp add: Test_def getBeforeTestActions_def getAfterTestActions_def
          getBeforeFeatureActions_def getAfterFeatureActions_def getActionsByRole_def
          bracketEnv_fields run_def hookOf_def execFeature_def T_Run_def featureBody_def
          notMatched_def T_new_def WithFeatureRegex_def New_Config_def keepOnly_def featureOf_def
          assessOf_def GetStepsByLevel_def assessBody_def)
  have h5: "runActions ?a (bracketEnv\<lparr>ctx := Some 20\<rparr>) = (bracketEnv\<lparr>ctx := Some 40\<rparr>, None)"
    by (simp add: a run_def hookOf_def bracketEnv_fields e)
  let ?b' = "getBeforeFeatureActions bracketFailEnv"
  let ?a' = "getAfterFeatureActions bracketFailEnv"
  let ?rest = "[featureOf ''keep'' [assessOf ''assess'' (\<lambda>v. v + 1)]]"
  have b': "?b' = [\<lparr>role = roleBeforeFeature, funcs = [hookOf (\<lambda>v. v + 20)]\<rparr>]"
    by (simp add: getBeforeFeatureActions_def getActionsByRole_def bracketFailEnv_fields)
  have a': "?a' = [\<lparr>role = roleAfterFeature, funcs = [failingHook ''boom'']\<rparr>]"
    by (simp add: getAfterFeatureActions_def getActionsByRole_def bracketFailEnv_fields)
  have e': "bracketFailEnv\<lparr>ctx := c, cfg := WithFeatureRegex New_Config keepOnly\<rparr> = bracketFailEnv\<lparr>ctx := c\<rparr>" for c
    by (simp add: bracketFailEnv_def BeforeEachFeature_def AfterEachFeature_def NewWithConfig_def)
  have k1: "Test_features ?b' ?a' [] bracketFailEnv (T_new ''TestX'') =
              (TestReturned, bracketFailEnv, T_new ''TestX'')"
    by simp
  have k2: "runActions ?b' bracketFailEnv = (bracketFailEnv\<lparr>ctx := Some 20\<rparr>, None)"
    by (simp add: b' run_def hookOf_def bracketFailEnv_fields)
  have k3: "featureRegex (cfg (bracketFailEnv\<lparr>ctx := Some 20\<rparr>)) = Some keepOnly"
    by (simp add: bracketFailEnv_fields WithFeatureRegex_def)
  have k5: "runActions ?a' (bracketFailEnv\<lparr>ctx := Some 20\<rparr>) =
              (bracketFailEnv\<lparr>ctx := Some 20\<rparr>, Some ''boom'')"
    by (simp add: a' run_def failingHook_def bracketFailEnv_fields e')
  have fail: "fst (Test_features ?b' ?a' ([] @ ?skip # ?rest) bracketFailEnv (T_new ''TestX'')) = TestGoexit
      \<and> fst (snd (Test_features ?b' ?a' ([] @ ?skip # ?rest) bracketFailEnv (T_new ''TestX'')))
            = bracketFailEnv\<lparr>ctx := Some 20\<rparr>"
    using skipped_feature_keeps_bracketing_hooks
            [OF k1 k2 k3 h4, of "bracketFailEnv\<lparr>ctx := Some 20\<rparr>" ?rest "''boom''"] k5
    by blast
  have ok: "Test_features ?b ?a ([] @ ?skip # []) bracketEnv (T_new ''TestX'') =
       (TestReturned, bracketEnv\<lparr>ctx := Some 40\<rparr>,
        T ''TestX'' False False []
          [T ''skip'' False True [''Skipping feature '' @ quoted ''skip'' @ '': name not matched''] []])"
    using skipped_feature_keeps_bracketing_hooks
            [OF h1 h2 h3 h4, of "bracketEnv\<lparr>ctx := Some 40\<rparr>" "[]"] h5
    by (simp add: T_new_def featureOf_def)
  show ?thesis
    using h1 h2 h3 h4 ok t k2 k5 fail by blast
qed

text \<open>
  Claim C7, the code at failing inputs.  A hook that returns the error
  \<open>boom\<close> ends the test through \<open>t.Fatalf\<close> in each of the four phases.
  The line logged on the handle names the phase for a BeforeEachTest and for
  an AfterEachTest hook; for a BeforeEachFeature and for an AfterEachFeature
  hook it reads \<open>BeforeEachTest failure\<close>.
\<close>

theorem Test_hook_failure_messages:
  "Test (AfterEachFeature (newTestEnv 0) [failingHook ''boom'']) (T_new ''TestX'')
     [featureOf ''feat'' [assessOf ''assess'' (\<lambda>v. v + 1)]] =
     (TestGoexit,
      (AfterEachFeature (newTestEnv 0) [failingHook ''boom''])\<lparr>ctx := Some 1\<rparr>,
      T ''TestX'' True False [''BeforeEachTest failure: boom'']
        [T ''feat'' False False [] [T ''assess'' False False [] []]])
   \<and> Test (BeforeEachFeature (newTestEnv 0) [failingHook ''boom'']) (T_new ''TestX'')
     [featureOf ''feat'' [assessOf ''assess'' (\<lambda>v. v + 1)]] =
     (TestGoexit,
      BeforeEachFeature (newTestEnv 0) [failingHook ''boom''],
      T ''TestX'' True False [''BeforeEachTest failure: boom''] [])
   \<and> Test (BeforeEachTest (newTestEnv 0) [failingHook ''boom'']) (T_new ''TestX'')
     [featureOf ''feat'' [assessOf ''assess'' (\<lambda>v. v + 1)]] =
     (TestGoexit,
      BeforeEachTest (newTestEnv 0) [failingHook ''boom''],
      T ''TestX'' True False [''BeforeEachTest failure: boom''] [])
   \<and> Test (AfterEachTest (newTestEnv 0) [failingHook ''boom'']) (T_new ''TestX'')
     [featureOf ''feat'' [assessOf ''assess'' (\<lambda>v. v + 1)]] =
     (TestGoexit,
      (AfterEachTest (newTestEnv 0) [failingHook ''boom''])\<lparr>ctx := Some 1\<rparr>,
      T ''TestX'' True False [''AfterEachTest failure: boom'']
        [T ''feat'' False False [] [T ''assess'' False False [] []]])"
  by (simp add: Test_def getBeforeTestActions_def getAfterTestActions_def
        getBeforeFeatureActions_def getAfterFeatureActions_def getActionsByRole_def
        AfterEachFeature_def BeforeEachFeature_def BeforeEachTest_def AfterEachTest_def
        newTestEnv_def run_def failingHook_def execFeature_def T_Run_def featureBody_def
        notMatched_def T_new_def New_Config_def featureOf_def
        assessOf_def GetStepsByLevel_def assessBody_def)

section \<open>Properties of Run\<close>

lemma runActions_append:
  "runActions (xs @ ys) e =
     (case runActions xs e of (e1, Some err) \<Rightarrow> (e1, Some err) | (e1, None) \<Rightarrow> runActions ys e1)"
  by (induction xs arbitrary: e) (simp_all split: prod.splits option.splits)

lemma runActions_ok_thread:
  "runActions as e = (e1, None) \<Longrightarrow>
     e1 = e\<lparr>ctx := fst (threadActions as (ctx e, cfg e)), cfg := snd (threadActions as (ctx e, cfg e))\<rparr>"
proof (induction as arbitrary: e)
  case Nil
  then show ?case by (simp add: threadActions_def)
next
  case (Cons a as)
  obtain c err g where r: "run a (ctx e) (cfg e) = (c, err, g)" by (cases "run a (ctx e) (cfg e)")
  show ?case
  proof (cases err)
    case None
    with Cons.prems r have "runActions as (e\<lparr>ctx := c, cfg := g\<rparr>) = (e1, None)" by simp
    from Cons.IH[OF this] show ?thesis
      using r None by (simp add: threadActions_def threadAction_def)
  next
    case (Some m)
    with Cons.prems r show ?thesis by simp
  qed
qed

lemma runFinishes_thread:
  "runFinishes fins e logged =
     (e\<lparr>ctx := fst (threadActions fins (ctx e, cfg e)), cfg := snd (threadActions fins (ctx e, cfg e))\<rparr>,
      logged @ errorsOf fins (ctx e, cfg e))"
proof (induction fins arbitrary: e logged)
  case Nil
  show ?case by (simp add: threadActions_def)
next
  case (Cons a as)
  obtain c err g where r: "run a (ctx e) (cfg e) = (c, err, g)" by (cases "run a (ctx e) (cfg e)")
  show ?case
    by (cases err) (simp_all add: r Cons.IH threadActions_def threadAction_def)
qed

text \<open>
  Claim C2.  On an environment whose context is set, the Setup actions are
  the actions of role Setup in registration order.  When the actions before
  one of them have run without error, threaded from the environment's context
  and configuration, and that one returns an error, \<open>Run\<close> ends in
  \<open>os.Exit(1)\<close> with the error printed: the result names neither the actions
  after it nor the test runner, so none of them has run.  When all of them run
  without error, the test runner is called on the environment they leave,
  threaded through all of them.
\<close>

theorem Run_setup_fail_fast:
  assumes "ctx e \<noteq> None"
  shows "getSetupActions e = filter (\<lambda>a. role a = roleSetup) (actions e)
       \<and> (getSetupActions e = before @ a # after \<longrightarrow>
            runActions before e = (e1, None) \<longrightarrow>
            run a (ctx e1) (cfg e1) = (c, Some err, g) \<longrightarrow>
              e1 = e\<lparr>ctx := fst (threadActions before (ctx e, cfg e)),
                      cfg := snd (threadActions before (ctx e, cfg e))\<rparr>
            \<and> Run e m = (RunExit 1, e1\<lparr>ctx := c, cfg := g\<rparr>, [err]))
       \<and> (runActions (getSetupActions e) e = (e2, None) \<longrightarrow>
              e2 = e\<lparr>ctx := fst (threadActions (getSetupActions e) (ctx e, cfg e)),
                      cfg := snd (threadActions (getSetupActions e) (ctx e, cfg e))\<rparr>
            \<and> Run e m =
                (case m e2 of
                   (exitCode, e3) \<Rightarrow>
                     (case runFinishes (getFinishActions e3) e3 [] of
                        (e4, logged) \<Rightarrow> (RunReturned exitCode, e4, logged))))"
proof (intro conjI impI)
  show "getSetupActions e = filter (\<lambda>a. role a = roleSetup) (actions e)"
    by (simp add: getSetupActions_def getActionsByRole_def getActionsByRole_loop_filter)
next
  assume "runActions before e = (e1, None)"
  then show "e1 = e\<lparr>ctx := fst (threadActions before (ctx e, cfg e)),
                     cfg := snd (threadActions before (ctx e, cfg e))\<rparr>"
    by (rule runActions_ok_thread)
next
  assume "getSetupActions e = before @ a # after" "runActions before e = (e1, None)"
    "run a (ctx e1) (cfg e1) = (c, Some err, g)"
  then show "Run e m = (RunExit 1, e1\<lparr>ctx := c, cfg := g\<rparr>, [err])"
    by (simp add: Run_def runActions_append assms)
next
  assume "runActions (getSetupActions e) e = (e2, None)"
  then show "e2 = e\<lparr>ctx := fst (threadActions (getSetupActions e) (ctx e, cfg e)),
                     cfg := snd (threadActions (getSetupActions e) (ctx e, cfg e))\<rparr>"
    by (rule runActions_ok_thread)
next
  assume "runActions (getSetupActions e) e = (e2, None)"
  then show "Run e m =
      (case m e2 of
         (exitCode, e3) \<Rightarrow>
           (case runFinishes (getFinishActions e3) e3 [] of
              (e4, logged) \<Rightarrow> (RunReturned exitCode, e4, logged)))"
    by (simp add: Run_def assms)
qed

lemma failingSuite_actions:
  "actions failingSuite =
     [\<lparr>role = roleSetup, funcs = [hookOf (\<lambda>v. v + 1)]\<rparr>,
      \<lparr>role = roleFinish, funcs = [failingHook ''cleanup failed'', hookOf (\<lambda>v. v + 1000)]\<rparr>,
      \<lparr>role = roleSetup, funcs = [failingHook ''no cluster'']\<rparr>,
      \<lparr>role = roleFinish, funcs = [hookOf (\<lambda>v. v * 2)]\<rparr>,
      \<lparr>role = roleSetup, funcs = [hookOf (\<lambda>v. v + 100)]\<rparr>]"
  by (simp add: failingSuite_def Setup_def Finish_def newTestEnv_def)

lemma failingSuite_fields: "ctx failingSuite = Some 0" "cfg failingSuite = New_Config"
  by (simp_all add: failingSuite_def Setup_def Finish_def newTestEnv_def)

lemma cleanupSuite_fields:
  "ctx cleanupSuite = Some 0" "cfg cleanupSuite = New_Config"
  "actions cleanupSuite =
     [\<lparr>role = roleSetup, funcs = [hookOf (\<lambda>v. v + 1)]\<rparr>,
      \<lparr>role = roleFinish, funcs = [failingHook ''cleanup failed'', hookOf (\<lambda>v. v + 1000)]\<rparr>,
      \<lparr>role = roleFinish, funcs = [hookOf (\<lambda>v. v * 2)]\<rparr>]"
  by (simp_all add: cleanupSuite_def Setup_def Finish_def newTestEnv_def)

theorem Run_setup_fail_fast_witness:
  "ctx failingSuite \<noteq> None
   \<and> getSetupActions failingSuite =
       [\<lparr>role = roleSetup, funcs = [hookOf (\<lambda>v. v + 1)]\<rparr>]
       @ \<lparr>role = roleSetup, funcs = [failingHook ''no cluster'']\<rparr>
       # [\<lparr>role = roleSetup, funcs = [hookOf (\<lambda>v. v + 100)]\<rparr>]
   \<and> runActions [\<lparr>role = roleSetup, funcs = [hookOf (\<lambda>v. v + 1)]\<rparr>] failingSuite
       = (failingSuite\<lparr>ctx := Some 1\<rparr>, None)
   \<and> run \<lparr>role = roleSetup, funcs = [failingHook ''no cluster'']\<rparr> (Some 1) New_Config
       = (Some 1, Some ''no cluster'', New_Config)
   \<and> Run failingSuite (runnerOf 0) = (RunExit 1, failingSuite\<lparr>ctx := Some 1\<rparr>, [''no cluster''])
   \<and> ctx cleanupSuite \<noteq> None
   \<and> runActions (getSetupActions cleanupSuite) cleanupSuite = (cleanupSuite\<lparr>ctx := Some 1\<rparr>, None)
   \<and> Run cleanupSuite (runnerOf 0) =
       (RunReturned 0, cleanupSuite\<lparr>ctx := Some 22\<rparr>, [''cleanup failed''])"
proof -
  have c: "ctx failingSuite \<noteq> None" by (simp add: failingSuite_fields)
  have s: "getSetupActions failingSuite =
       [\<lparr>role = roleSetup, funcs = [hookOf (\<lambda>v. v + 1)]\<rparr>]
       @ \<lparr>role = roleSetup, funcs = [failingHook ''no cluster'']\<rparr>
       # [\<lparr>role = roleSetup, funcs = [hookOf (\<lambda>v. v + 100)]\<rparr>]"
    by (simp add: getSetupActions_def getActionsByRole_def failingSuite_actions)
  have b: "runActions [\<lparr>role = roleSetup, funcs = [hookOf (\<lambda>v. v + 1)]\<rparr>] failingSuite
       = (failingSuite\<lparr>ctx := Some 1\<rparr>, None)"
    by (simp add: run_def hookOf_def failingSuite_fields)
  have f: "run \<lparr>role = roleSetup, funcs = [failingHook ''no cluster'']\<rparr>
             (ctx (failingSuite\<lparr>ctx := Some 1\<rparr>)) (cfg (failingSuite\<lparr>ctx := Some 1\<rparr>))
       = (Some 1, Some ''no cluster'', New_Config)"
    by (simp add: run_def failingHook_def failingSuite_fields)
  from Run_setup_fail_fast [OF c, of "[\<lparr>role = roleSetup, funcs = [hookOf (\<lambda>v. v + 1)]\<rparr>]"
      "\<lparr>role = roleSetup, funcs = [failingHook ''no cluster'']\<rparr>"
      "[\<lparr>role = roleSetup, funcs = [hookOf (\<lambda>v. v + 100)]\<rparr>]"
      "failingSuite\<lparr>ctx := Some 1\<rparr>" "Some 1" "''no cluster''" New_Config "runnerOf 0"] s b f
  have "Run failingSuite (runnerOf 0) =
          (RunExit 1, failingSuite\<lparr>ctx := Some 1, ctx := Some 1, cfg := New_Config\<rparr>, [''no cluster''])"
    by blast
  moreover have "failingSuite\<lparr>ctx := Some 1, ctx := Some 1, cfg := New_Config\<rparr> = failingSuite\<lparr>ctx := Some 1\<rparr>"
    by (simp add: failingSuite_def Setup_def Finish_def newTestEnv_def)
  ultimately have fail: "Run failingSuite (runnerOf 0) =
      (RunExit 1, failingSuite\<lparr>ctx := Some 1\<rparr>, [''no cluster''])"
    by simp
  have c': "ctx cleanupSuite \<noteq> None" by (simp add: cleanupSuite_fields)
  have s': "runActions (getSetupActions cleanupSuite) cleanupSuite = (cleanupSuite\<lparr>ctx := Some 1\<rparr>, None)"
    by (simp add: getSetupActions_def getActionsByRole_def cleanupSuite_fields run_def hookOf_def)
  have fin: "getFinishActions (cleanupSuite\<lparr>ctx := Some 11\<rparr>) =
      [\<lparr>role = roleFinish, funcs = [failingHook ''cleanup failed'', hookOf (\<lambda>v. v + 1000)]\<rparr>,
       \<lparr>role = roleFinish, funcs = [hookOf (\<lambda>v. v * 2)]\<rparr>]"
    by (simp add: getFinishActions_def getActionsByRole_def cleanupSuite_fields)
  have eq: "cleanupSuite\<lparr>ctx := Some 22, cfg := New_Config\<rparr> = cleanupSuite\<lparr>ctx := Some 22\<rparr>"
    by (simp add: cleanupSuite_def Setup_def Finish_def newTestEnv_def)
  have ok: "Run cleanupSuite (runnerOf 0) =
      (RunReturned 0, cleanupSuite\<lparr>ctx := Some 22\<rparr>, [''cleanup failed''])"
    using Run_setup_fail_fast [OF c', of _ _ _ _ _ _ _ "runnerOf 0" "cleanupSuite\<lparr>ctx := Some 1\<rparr>"] s'
    by (simp add: runnerOf_def fin cleanupSuite_fields run_def failingHook_def hookOf_def eq)
  show ?thesis
    using c s b f fail c' s' ok by (simp add: failingSuite_fields)
qed

text \<open>
  Claim C3.  When the Setup actions have run without error and the test
  runner has returned the exit code and left the environment \<open>e2\<close>, \<open>Run\<close>
  returns that exit code; every action of role Finish of \<open>e2\<close>, in
  registration order, has been run on the context and configuration left by
  the one before it, whether or not it returned an error, and the errors they
  returned are what was logged.
\<close>

theorem Run_finish_best_effort:
  assumes "ctx e \<noteq> None"
      and "runActions (getSetupActions e) e = (e1, None)"
      and "m e1 = (exitCode, e2)"
  shows "Run e m =
           (RunReturned exitCode,
            e2\<lparr>ctx := fst (threadActions (getFinishActions e2) (ctx e2, cfg e2)),
                cfg := snd (threadActions (getFinishActions e2) (ctx e2, cfg e2))\<rparr>,
            errorsOf (getFinishActions e2) (ctx e2, cfg e2))
       \<and> getFinishActions e2 = filter (\<lambda>a. role a = roleFinish) (actions e2)"
  by (simp add: Run_def assms runFinishes_thread getFinishActions_def getActionsByRole_def
        getActionsByRole_loop_filter)

theorem Run_finish_best_effort_witness:
  "ctx cleanupSuite \<noteq> None
   \<and> runActions (getSetupActions cleanupSuite) cleanupSuite = (cleanupSuite\<lparr>ctx := Some 1\<rparr>, None)
   \<and> runnerOf 3 (cleanupSuite\<lparr>ctx := Some 1\<rparr>) = (3, cleanupSuite\<lparr>ctx := Some 11\<rparr>)
   \<and> Run cleanupSuite (runnerOf 3) =
       (RunReturned 3, cleanupSuite\<lparr>ctx := Some 22\<rparr>, [''cleanup failed''])"
proof -
  have c: "ctx cleanupSuite \<noteq> None" by (simp add: cleanupSuite_fields)
  have s: "runActions (getSetupActions cleanupSuite) cleanupSuite = (cleanupSuite\<lparr>ctx := Some 1\<rparr>, None)"
    by (simp add: getSetupActions_def getActionsByRole_def cleanupSuite_fields run_def hookOf_def)
  have m: "runnerOf 3 (cleanupSuite\<lparr>ctx := Some 1\<rparr>) = (3, cleanupSuite\<lparr>ctx := Some 11\<rparr>)"
    by (simp add: runnerOf_def)
  have f: "getFinishActions (cleanupSuite\<lparr>ctx := Some 11\<rparr>) =
      [\<lparr>role = roleFinish, funcs = [failingHook ''cleanup failed'', hookOf (\<lambda>v. v + 1000)]\<rparr>,
       \<lparr>role = roleFinish, funcs = [hookOf (\<lambda>v. v * 2)]\<rparr>]"
    by (simp add: getFinishActions_def getActionsByRole_def cleanupSuite_fields)
  have e: "cleanupSuite\<lparr>ctx := Some 22, cfg := New_Config\<rparr> = cleanupSuite\<lparr>ctx := Some 22\<rparr>"
    by (simp add: cleanupSuite_def Setup_def Finish_def newTestEnv_def)
  show ?thesis
    using Run_finish_best_effort [where m = "runnerOf 3", OF c s m] c s m
    by (simp add: f cleanupSuite_fields threadActions_def threadAction_def run_def
          failingHook_def hookOf_def e)
qed

end
